theory Spec2Isabelle
  imports Main "HOL-Library.Word"
begin

section \<open>Static type instances of the shader translator (StaticType.h)\<close>

text \<open>
  The header builds, for each combination of basic type, precision, qualifier and the two
  sizes, one constant \<open>TType\<close> object together with its mangled name, and offers static
  and dynamic lookups that return the address of that object.

  Everything in the header that can go wrong does so in one of three ways, and each is a
  value of \<open>error\<close> here: a \<open>static_assert\<close> that fails, an array index that leaves its
  array while a \<open>constexpr\<close> initialiser is evaluated (the translation unit is then
  rejected), and the macro \<open>UNREACHABLE\<close> being reached at run time.
\<close>

subsection \<open>Types declared outside the header\<close>

text \<open>
  Modelled from the spec: the enumerations \<open>TBasicType\<close>, \<open>TPrecision\<close> and
  \<open>TQualifier\<close> are declared in a sibling module. The header names five basic types, one
  precision and two qualifiers; every other enumerant is kept opaque under a last
  constructor that carries its number.
\<close>

datatype TBasicType = EbtVoid | EbtFloat | EbtInt | EbtUInt | EbtBool | EbtOther nat

datatype TPrecision = EbpUndefined | EbpOther nat

datatype TQualifier = EvqGlobal | EvqOut | EvqOther nat

text \<open>
  Modelled from the spec: the class \<open>TType\<close> is declared in a sibling module. The spec
  describes the descriptor as an immutable record of the five key attributes and the
  canonical name; the constructor used by the header takes exactly these six arguments.
\<close>

record TType =
  td_basicKind :: TBasicType
  td_precision :: TPrecision
  td_qualifier :: TQualifier
  td_primarySize :: "8 word"
  td_secondarySize :: "8 word"
  td_canonicalName :: "char list"

datatype error =
    StaticAssertFailed string
  | IndexOutOfBounds
  | UnreachableReached

definition andThen :: "error + 'a \<Rightarrow> ('a \<Rightarrow> error + 'b) \<Rightarrow> error + 'b" where
  "andThen r f = (case r of Inl e \<Rightarrow> Inl e | Inr x \<Rightarrow> f x)"

subsection \<open>Mangled names\<close>

definition NUL :: char where
  "NUL = CHR 0x00"

definition kStaticMangledNameMaxLength :: nat where
  "kStaticMangledNameMaxLength = 10"

record StaticMangledName =
  name :: "char list"

text \<open>The value-initialised struct: \<open>kStaticMangledNameMaxLength + 1\<close> zero bytes.\<close>

definition emptyName :: StaticMangledName where
  "emptyName = \<lparr>name = replicate (kStaticMangledNameMaxLength + 1) NUL\<rparr>"

text \<open>
  \<open>name.name[at] = c\<close> inside a constant expression: an index outside the array is not
  a constant expression, so the initialiser is rejected.
\<close>

definition store :: "StaticMangledName \<Rightarrow> nat \<Rightarrow> char \<Rightarrow> error + StaticMangledName" where
  "store n at c =
     (if at < length (name n) then Inr (n\<lparr>name := (name n)[at := c]\<rparr>) else Inl IndexOutOfBounds)"

text \<open>\<open>name.name[at++] = c\<close>: the state is the struct and the cursor \<open>at\<close>.\<close>

definition put :: "StaticMangledName \<times> nat \<Rightarrow> char \<Rightarrow> error + StaticMangledName \<times> nat" where
  "put st c = andThen (store (fst st) (snd st) c) (\<lambda>n. Inr (n, Suc (snd st)))"

text \<open>
  The loop over \<open>basicMangledName\<close>. The pointer returned by \<open>GetBasicMangledName\<close> is
  modelled by the character array it points to, terminator included; reading beyond that
  array (or through a null pointer, the empty array) is not a constant expression.
\<close>

function copyBasicMangledName ::
  "char list \<Rightarrow> nat \<Rightarrow> StaticMangledName \<times> nat \<Rightarrow> error + StaticMangledName \<times> nat" where
  "copyBasicMangledName basicMangledName i st =
     (if i < length basicMangledName then
        (if basicMangledName ! i \<noteq> NUL then
           (case put st (basicMangledName ! i) of
              Inl e \<Rightarrow> Inl e
            | Inr st' \<Rightarrow> copyBasicMangledName basicMangledName (Suc i) st')
         else Inr st)
      else Inl IndexOutOfBounds)"
  by pat_completeness auto
termination
  by (relation "measure (\<lambda>(s, i, st). length s - i)") auto

declare copyBasicMangledName.simps [simp del]

text \<open>\<open>'0' + size\<close>, converted back to \<open>char\<close>.\<close>

definition digit :: "8 word \<Rightarrow> char" where
  "digit n = char_of (of_char (CHR ''0'') + unat n)"

text \<open>
  \<open>BuildStaticMangledName\<close>. The table \<open>GetBasicMangledName\<close> belongs to a sibling
  module and is a parameter here.
\<close>

definition BuildStaticMangledName ::
  "(TBasicType \<Rightarrow> char list) \<Rightarrow> TBasicType \<Rightarrow> TPrecision \<Rightarrow> TQualifier \<Rightarrow> 8 word \<Rightarrow> 8 word
     \<Rightarrow> error + StaticMangledName" where
  "BuildStaticMangledName GetBasicMangledName basicType precision qualifier primarySize secondarySize =
     (let isMatrix = (primarySize > 1 \<and> secondarySize > 1);
          isVector = (primarySize > 1 \<and> secondarySize = 1)
      in andThen (if isMatrix then put (emptyName, 0) (CHR ''m'')
                  else if isVector then put (emptyName, 0) (CHR ''v'')
                  else Inr (emptyName, 0)) (\<lambda>st1.
         andThen (copyBasicMangledName (GetBasicMangledName basicType) 0 st1) (\<lambda>st2.
         andThen (put st2 (digit primarySize)) (\<lambda>st3.
         andThen (if isMatrix then andThen (put st3 (CHR ''x'')) (\<lambda>st. put st (digit secondarySize))
                  else Inr st3) (\<lambda>st4.
         andThen (put st4 (CHR '';'')) (\<lambda>st5.
         store (fst st5) (snd st5) NUL))))))"

definition kMangledNameInstance ::
  "(TBasicType \<Rightarrow> char list) \<Rightarrow> TBasicType \<Rightarrow> TPrecision \<Rightarrow> TQualifier \<Rightarrow> 8 word \<Rightarrow> 8 word
     \<Rightarrow> error + StaticMangledName" where
  "kMangledNameInstance GetBasicMangledName basicType precision qualifier primarySize secondarySize =
     BuildStaticMangledName GetBasicMangledName basicType precision qualifier primarySize secondarySize"

text \<open>How a reader of the \<open>const char *\<close> sees the array: the characters before the first zero.\<close>

definition c_str :: "char list \<Rightarrow> string" where
  "c_str a = takeWhile (\<lambda>c. c \<noteq> NUL) a"

subsection \<open>The instances and their addresses\<close>

text \<open>
  \<open>kInstance<B, P, Q, PS, SS>\<close> is one constant object for each tuple of template
  arguments. Its value is built from the tuple and the mangled name of the same tuple.
  \<open>TTypePtr\<close> names the specialisation whose address a lookup takes; the address
  itself, which also depends on the translation unit, is \<open>TTypeAddress\<close> below.
\<close>

definition kInstance ::
  "(TBasicType \<Rightarrow> char list) \<Rightarrow> TBasicType \<Rightarrow> TPrecision \<Rightarrow> TQualifier \<Rightarrow> 8 word \<Rightarrow> 8 word
     \<Rightarrow> error + TType" where
  "kInstance GetBasicMangledName basicType precision qualifier primarySize secondarySize =
     andThen (kMangledNameInstance GetBasicMangledName basicType precision qualifier
                primarySize secondarySize) (\<lambda>mangled.
       Inr \<lparr>td_basicKind = basicType, td_precision = precision, td_qualifier = qualifier,
            td_primarySize = primarySize, td_secondarySize = secondarySize,
            td_canonicalName = name mangled\<rparr>)"

datatype TTypePtr = kInstancePtr TBasicType TPrecision TQualifier "8 word" "8 word"


subsection \<open>Static lookup\<close>

text \<open>
  Template arguments and run-time arguments are both ordinary arguments of the functions
  below, template arguments first. A \<open>static_assert\<close> that fails is the error
  \<open>StaticAssertFailed\<close> with the message of the assertion.
\<close>

definition Get :: "TBasicType \<Rightarrow> TPrecision \<Rightarrow> TQualifier \<Rightarrow> 8 word \<Rightarrow> 8 word \<Rightarrow> error + TTypePtr" where
  "Get basicType precision qualifier primarySize secondarySize =
     (if \<not> (1 \<le> primarySize \<and> primarySize \<le> 4)
        then Inl (StaticAssertFailed ''primarySize out of bounds'')
      else if \<not> (1 \<le> secondarySize \<and> secondarySize \<le> 4)
        then Inl (StaticAssertFailed ''secondarySize out of bounds'')
      else Inr (kInstancePtr basicType precision qualifier primarySize secondarySize))"

definition GetBasic :: "TBasicType \<Rightarrow> 8 word \<Rightarrow> 8 word \<Rightarrow> error + TTypePtr" where
  "GetBasic basicType primarySize secondarySize =
     Get basicType EbpUndefined EvqGlobal primarySize secondarySize"

definition GetQualified :: "TBasicType \<Rightarrow> TQualifier \<Rightarrow> 8 word \<Rightarrow> 8 word \<Rightarrow> error + TTypePtr" where
  "GetQualified basicType qualifier primarySize secondarySize =
     Get basicType EbpUndefined qualifier primarySize secondarySize"

subsection \<open>Dynamic lookup\<close>

text \<open>
  Modelled from the spec: the macro \<open>UNREACHABLE\<close> is defined outside the header. The
  spec has it abort with a diagnostic, and allows a build in which it does nothing and
  the statement after it runs. The flag \<open>fatal\<close> says which build this is.
\<close>

definition UNREACHABLE :: "bool \<Rightarrow> error + unit" where
  "UNREACHABLE fatal = (if fatal then Inl UnreachableReached else Inr ())"

text \<open>
  A function template that is instantiated instantiates every specialisation its body
  names, in every branch of its \<open>switch\<close>, whatever the run-time arguments will be, and
  a \<open>static_assert\<close> that fails in any of them rejects the build. So each dynamic lookup
  first instantiates what its body names and only then takes its \<open>switch\<close>.

  The helper's own \<open>static_assert\<close> and the five specialisations its body names:
\<close>

definition instantiate_GetForVecMatHelper ::
  "TBasicType \<Rightarrow> TPrecision \<Rightarrow> TQualifier \<Rightarrow> 8 word \<Rightarrow> error + unit" where
  "instantiate_GetForVecMatHelper basicType precision qualifier secondarySize =
     (if \<not> (basicType = EbtFloat \<or> basicType = EbtInt \<or> basicType = EbtUInt \<or> basicType = EbtBool)
        then Inl (StaticAssertFailed ''unsupported basicType'')
      else andThen (Get basicType precision qualifier 1 secondarySize) (\<lambda>_.
           andThen (Get basicType precision qualifier 2 secondarySize) (\<lambda>_.
           andThen (Get basicType precision qualifier 3 secondarySize) (\<lambda>_.
           andThen (Get basicType precision qualifier 4 secondarySize) (\<lambda>_.
           andThen (GetBasic EbtVoid 1 1) (\<lambda>_. Inr ()))))))"

definition GetForVecMatHelper ::
  "bool \<Rightarrow> TBasicType \<Rightarrow> TPrecision \<Rightarrow> TQualifier \<Rightarrow> 8 word \<Rightarrow> 8 word \<Rightarrow> error + TTypePtr" where
  "GetForVecMatHelper fatal basicType precision qualifier secondarySize primarySize =
     andThen (instantiate_GetForVecMatHelper basicType precision qualifier secondarySize) (\<lambda>_.
       if primarySize = 1 then Get basicType precision qualifier 1 secondarySize
       else if primarySize = 2 then Get basicType precision qualifier 2 secondarySize
       else if primarySize = 3 then Get basicType precision qualifier 3 secondarySize
       else if primarySize = 4 then Get basicType precision qualifier 4 secondarySize
       else andThen (UNREACHABLE fatal) (\<lambda>_. GetBasic EbtVoid 1 1))"

definition GetForVecMat ::
  "bool \<Rightarrow> TBasicType \<Rightarrow> TPrecision \<Rightarrow> TQualifier \<Rightarrow> 8 word \<Rightarrow> 8 word \<Rightarrow> error + TTypePtr" where
  "GetForVecMat fatal basicType precision qualifier primarySize secondarySize =
     (if \<not> (basicType = EbtFloat \<or> basicType = EbtInt \<or> basicType = EbtUInt \<or> basicType = EbtBool)
        then Inl (StaticAssertFailed ''unsupported basicType'')
      else
        andThen (instantiate_GetForVecMatHelper basicType precision qualifier 1) (\<lambda>_.
        andThen (instantiate_GetForVecMatHelper basicType precision qualifier 2) (\<lambda>_.
        andThen (instantiate_GetForVecMatHelper basicType precision qualifier 3) (\<lambda>_.
        andThen (instantiate_GetForVecMatHelper basicType precision qualifier 4) (\<lambda>_.
        andThen (GetBasic EbtVoid 1 1) (\<lambda>_.
          if secondarySize = 1 then GetForVecMatHelper fatal basicType precision qualifier 1 primarySize
          else if secondarySize = 2 then GetForVecMatHelper fatal basicType precision qualifier 2 primarySize
          else if secondarySize = 3 then GetForVecMatHelper fatal basicType precision qualifier 3 primarySize
          else if secondarySize = 4 then GetForVecMatHelper fatal basicType precision qualifier 4 primarySize
          else andThen (UNREACHABLE fatal) (\<lambda>_. GetBasic EbtVoid 1 1)))))))"

text \<open>
  \<open>GetForVec\<close> has no \<open>static_assert\<close> of its own; the one that restricts its basic
  type is the helper's, met when the two specialisations of the helper are instantiated.
\<close>

definition GetForVec ::
  "bool \<Rightarrow> TBasicType \<Rightarrow> TPrecision \<Rightarrow> TQualifier \<Rightarrow> 8 word \<Rightarrow> error + TTypePtr" where
  "GetForVec fatal basicType precision qualifier size' =
     andThen (instantiate_GetForVecMatHelper basicType precision EvqGlobal 1) (\<lambda>_.
     andThen (instantiate_GetForVecMatHelper basicType precision EvqOut 1) (\<lambda>_.
     andThen (GetBasic EbtVoid 1 1) (\<lambda>_.
       case qualifier of
         EvqGlobal \<Rightarrow> GetForVecMatHelper fatal basicType precision EvqGlobal 1 size'
       | EvqOut \<Rightarrow> GetForVecMatHelper fatal basicType precision EvqOut 1 size'
       | EvqOther _ \<Rightarrow> andThen (UNREACHABLE fatal) (\<lambda>_. GetBasic EbtVoid 1 1))))"

subsection \<open>Linkage and the build of an instance\<close>




subsection \<open>The encoding in the words of the specification\<close>

text \<open>
  The five steps of the specification's name encoder, over the short code of the basic
  kind: the letter for a matrix or a vector, the short code, the digit of the primary
  size, for a matrix the letter x and the digit of the secondary size, and the terminator.
\<close>

definition Encode :: "string \<Rightarrow> 8 word \<Rightarrow> 8 word \<Rightarrow> string" where
  "Encode shortCode primarySize secondarySize =
     (if primarySize > 1 \<and> secondarySize > 1 then ''m''
      else if primarySize > 1 \<and> secondarySize = 1 then ''v'' else [])
     @ shortCode
     @ [digit primarySize]
     @ (if primarySize > 1 \<and> secondarySize > 1 then [CHR ''x'', digit secondarySize] else [])
     @ '';''"

text \<open>The struct after the characters \<open>cs\<close> have been written, with the cursor behind them.\<close>

definition filled :: "char list \<Rightarrow> StaticMangledName \<times> nat" where
  "filled cs =
     (\<lparr>name = cs @ replicate (kStaticMangledNameMaxLength + 1 - length cs) NUL\<rparr>, length cs)"

section \<open>The encoder computes the specified encoding\<close>

lemma andThen_Inr: "andThen (Inr x) f = f x"
  by (simp add: andThen_def)

lemma andThen_Inl: "andThen (Inl e) f = Inl e"
  by (simp add: andThen_def)

lemma andThen_assoc: "andThen (andThen r f) g = andThen r (\<lambda>x. andThen (f x) g)"
  by (cases r) (simp_all add: andThen_def)

lemma filled_empty: "(emptyName, 0) = filled []"
  by (simp add: filled_def emptyName_def)

lemma put_filled:
  "put (filled cs) c =
     (if length cs \<le> kStaticMangledNameMaxLength then Inr (filled (cs @ [c]))
      else Inl IndexOutOfBounds)"
proof (cases "length cs \<le> kStaticMangledNameMaxLength")
  case True
  then obtain m where m: "kStaticMangledNameMaxLength + 1 - length cs = Suc m"
    and m': "kStaticMangledNameMaxLength - length cs = m"
    by (metis Suc_diff_le Suc_eq_plus1)
  show ?thesis using True m m'
    by (simp add: put_def store_def filled_def andThen_def list_update_append)
next
  case False
  then show ?thesis
    by (simp add: put_def store_def filled_def andThen_def)
qed

lemma store_filled:
  "store (fst (filled cs)) (snd (filled cs)) NUL =
     (if length cs \<le> kStaticMangledNameMaxLength then Inr (fst (filled cs))
      else Inl IndexOutOfBounds)"
proof (cases "length cs \<le> kStaticMangledNameMaxLength")
  case True
  then obtain m where m: "kStaticMangledNameMaxLength + 1 - length cs = Suc m"
    by (metis Suc_diff_le Suc_eq_plus1)
  show ?thesis using True m
    by (simp add: store_def filled_def list_update_append)
next
  case False
  then show ?thesis
    by (simp add: store_def filled_def)
qed

text \<open>
  The loop over a well-formed C string \<open>code\<close> followed by its terminator copies the
  rest of \<open>code\<close>, or leaves the array when the rest does not fit.
\<close>

lemma copy_filled:
  assumes "s = code @ NUL # rest" "NUL \<notin> set code" "i \<le> length code"
    "length cs \<le> kStaticMangledNameMaxLength + 1"
  shows "copyBasicMangledName s i (filled cs) =
     (if length cs + (length code - i) \<le> kStaticMangledNameMaxLength + 1
      then Inr (filled (cs @ drop i code)) else Inl IndexOutOfBounds)"
  using assms
proof (induction "length code - i" arbitrary: i cs)
  case 0
  then have "i = length code" by simp
  with 0 show ?case
    by (subst copyBasicMangledName.simps) (simp add: nth_append)
next
  case (Suc k)
  then have i: "i < length code" by simp
  then have ne: "code ! i \<noteq> NUL" using Suc.prems(2) by (metis nth_mem)
  have d: "drop i code = code ! i # drop (Suc i) code"
    using i by (simp add: Cons_nth_drop_Suc)
  have k: "k = length code - Suc i" using Suc.hyps(2) by simp
  have si: "Suc i \<le> length code" using i by simp
  show ?case
  proof (cases "length cs \<le> kStaticMangledNameMaxLength")
    case True
    then have l: "length (cs @ [code ! i]) \<le> kStaticMangledNameMaxLength + 1" by simp
    show ?thesis
      using Suc.hyps(1)[OF k Suc.prems(1) Suc.prems(2) si l] i ne d Suc.prems(1) True
      by (subst copyBasicMangledName.simps) (auto simp: nth_append put_filled)
  next
    case False
    then show ?thesis using i ne Suc.prems(1)
      by (subst copyBasicMangledName.simps) (auto simp: nth_append put_filled)
  qed
qed

lemma put_then:
  "andThen (put (filled cs) c) f =
     (if length cs \<le> 10 then f (filled (cs @ [c])) else Inl IndexOutOfBounds)"
  by (simp add: put_filled kStaticMangledNameMaxLength_def andThen_Inr andThen_Inl)

lemma copy_then:
  assumes "s = code @ NUL # rest" "NUL \<notin> set code" "length cs \<le> 11"
  shows "andThen (copyBasicMangledName s 0 (filled cs)) f =
     (if length cs + length code \<le> 11 then f (filled (cs @ code)) else Inl IndexOutOfBounds)"
  using copy_filled [OF assms(1) assms(2), of 0 cs] assms(3)
  by (simp add: kStaticMangledNameMaxLength_def andThen_Inr andThen_Inl)

lemma store_last:
  "store (fst (filled cs)) (snd (filled cs)) NUL =
     (if length cs \<le> 10 then Inr (fst (filled cs)) else Inl IndexOutOfBounds)"
  by (simp add: store_filled kStaticMangledNameMaxLength_def)

lemmas build_steps = andThen_Inr andThen_Inl andThen_assoc put_then store_last filled_empty

text \<open>
  Refinement: on a well-formed short code the encoder of the header returns the encoding
  of the specification, zero-padded to the size of the array, when that encoding has at
  most \<open>kStaticMangledNameMaxLength\<close> characters, and is rejected otherwise.
\<close>

lemma BuildStaticMangledName_Encode:
  assumes tbl: "GetBasicMangledName basicType = code @ NUL # rest" and nul: "NUL \<notin> set code"
  shows "BuildStaticMangledName GetBasicMangledName basicType precision qualifier
           primarySize secondarySize =
     (if length (Encode code primarySize secondarySize) \<le> kStaticMangledNameMaxLength
      then Inr (fst (filled (Encode code primarySize secondarySize)))
      else Inl IndexOutOfBounds)"
proof -
  note copy = copy_then [OF tbl nul]
  show ?thesis
  proof (cases "1 < primarySize \<and> 1 < secondarySize")
    case True
    then have M: "(1 < primarySize \<and> 1 < secondarySize) = True" by simp
    show ?thesis
      by (simp add: BuildStaticMangledName_def Encode_def M build_steps copy
            kStaticMangledNameMaxLength_def)
  next
    case False
    then have M: "(1 < primarySize \<and> 1 < secondarySize) = False" by simp
    show ?thesis
    proof (cases "1 < primarySize \<and> secondarySize = 1")
      case True
      then have V: "(1 < primarySize \<and> secondarySize = 1) = True" by simp
      show ?thesis
        by (simp add: BuildStaticMangledName_def Encode_def M V build_steps copy
              kStaticMangledNameMaxLength_def)
    next
      case False
      then have V: "(1 < primarySize \<and> secondarySize = 1) = False" by simp
      show ?thesis
        by (simp add: BuildStaticMangledName_def Encode_def M V build_steps copy
              kStaticMangledNameMaxLength_def)
    qed
  qed
qed

subsection \<open>Digits, sizes and the finished array\<close>

lemma digit_values:
  "digit 1 = CHR ''1''" "digit 2 = CHR ''2''" "digit 3 = CHR ''3''" "digit 4 = CHR ''4''"
  by code_simp+

lemma dim_cases:
  fixes w :: "8 word"
  assumes "1 \<le> w" "w \<le> 4"
  shows "w = 1 \<or> w = 2 \<or> w = 3 \<or> w = 4"
proof -
  have "1 \<le> unat w" "unat w \<le> 4"
    using assms by (simp_all add: word_le_nat_alt)
  then have "unat w = 1 \<or> unat w = 2 \<or> unat w = 3 \<or> unat w = 4"
    by arith
  then show ?thesis
    by (auto simp: word_unat_eq_iff)
qed

lemma digit_not_NUL:
  assumes "1 \<le> w" "w \<le> 4"
  shows "digit w \<noteq> NUL"
  using dim_cases [OF assms] by (auto simp: digit_values NUL_def)

lemma name_filled:
  "length cs \<le> kStaticMangledNameMaxLength \<Longrightarrow>
     name (fst (filled cs)) = cs @ NUL # replicate (kStaticMangledNameMaxLength - length cs) NUL"
  by (simp add: filled_def Suc_diff_le)

lemma length_name_filled:
  "length cs \<le> kStaticMangledNameMaxLength \<Longrightarrow>
     length (name (fst (filled cs))) = kStaticMangledNameMaxLength + 1"
  by (simp add: name_filled)

lemma c_str_filled:
  assumes "NUL \<notin> set cs" "length cs \<le> kStaticMangledNameMaxLength"
  shows "c_str (name (fst (filled cs))) = cs"
  using assms(1) by (auto simp: c_str_def name_filled [OF assms(2)] takeWhile_tail)

lemma length_c_str_filled:
  assumes "length cs \<le> kStaticMangledNameMaxLength"
  shows "length (c_str (name (fst (filled cs)))) \<le> length cs"
  by (simp add: c_str_def name_filled [OF assms] takeWhile_tail length_takeWhile_le)

lemma Encode_scalar: "Encode code 1 ss = code @ ''1;''"
  by (simp add: Encode_def digit_values)

lemma Encode_vector: "1 < ps \<Longrightarrow> Encode code ps 1 = ''v'' @ code @ [digit ps, CHR '';'']"
  by (simp add: Encode_def)

lemma Encode_matrix:
  "1 < ps \<Longrightarrow> 1 < ss \<Longrightarrow> Encode code ps ss = ''m'' @ code @ [digit ps, CHR ''x'', digit ss, CHR '';'']"
  by (simp add: Encode_def)

lemma length_Encode:
  "length (Encode code ps ss) =
     length code + (if 1 < ps \<and> 1 < ss then 5 else if 1 < ps \<and> ss = 1 then 3 else 2)"
  by (simp add: Encode_def)

lemma NUL_notin_Encode:
  assumes "NUL \<notin> set code" "1 \<le> ps" "ps \<le> 4" "1 \<le> ss" "ss \<le> 4"
  shows "NUL \<notin> set (Encode code ps ss)"
  using assms(1) digit_not_NUL [OF assms(2,3)] digit_not_NUL [OF assms(4,5)]
  by (auto simp: Encode_def NUL_def)

section \<open>Claims about the name encoder\<close>

text \<open>
  Claim C2. On every valid key whose encoding fits the array, the encoder returns a name
  that reads as the encoding of the specification; in particular a scalar key (1, 1)
  reads as the short code followed by \<open>1;\<close>, a vector key (3, 1) as \<open>v\<close>, the short
  code and \<open>3;\<close>, and a matrix key (2, 3) as \<open>m\<close>, the short code and \<open>2x3;\<close>.
  The short code is any well-formed C string of the table; the bounds on its length are
  those under which the three names fit the array.
\<close>

theorem mangled_name_format:
  assumes "GetBasicMangledName basicType = code @ NUL # rest" and "NUL \<notin> set code"
  shows "(1 \<le> primarySize \<and> primarySize \<le> 4 \<and> 1 \<le> secondarySize \<and> secondarySize \<le> 4 \<and>
          length (Encode code primarySize secondarySize) \<le> kStaticMangledNameMaxLength \<longrightarrow>
            (\<exists>r. BuildStaticMangledName GetBasicMangledName basicType precision qualifier
                   primarySize secondarySize = Inr r \<and>
                 c_str (name r) = Encode code primarySize secondarySize))
       \<and> (length code \<le> 8 \<longrightarrow>
            (\<exists>r. BuildStaticMangledName GetBasicMangledName basicType precision qualifier 1 1 = Inr r \<and>
                 c_str (name r) = code @ ''1;''))
       \<and> (length code \<le> 7 \<longrightarrow>
            (\<exists>r. BuildStaticMangledName GetBasicMangledName basicType precision qualifier 3 1 = Inr r \<and>
                 c_str (name r) = ''v'' @ code @ ''3;''))
       \<and> (length code \<le> 5 \<longrightarrow>
            (\<exists>r. BuildStaticMangledName GetBasicMangledName basicType precision qualifier 2 3 = Inr r \<and>
                 c_str (name r) = ''m'' @ code @ ''2x3;''))"
proof -
  note build = BuildStaticMangledName_Encode
    [where GetBasicMangledName = GetBasicMangledName and basicType = basicType, OF assms]
  have general: "\<exists>r. BuildStaticMangledName GetBasicMangledName basicType precision qualifier ps ss = Inr r \<and>
                 c_str (name r) = Encode code ps ss"
    if "1 \<le> ps" "ps \<le> 4" "1 \<le> ss" "ss \<le> 4"
      "length (Encode code ps ss) \<le> kStaticMangledNameMaxLength" for ps ss
    using that c_str_filled [OF NUL_notin_Encode [OF assms(2) that(1-4)] that(5)]
    by (simp add: build)
  have scalar: "Encode code 1 1 = code @ ''1;''"
    by (simp add: Encode_scalar)
  have vector: "Encode code 3 1 = ''v'' @ code @ ''3;''"
    by (simp add: Encode_vector digit_values)
  have matrix: "Encode code 2 3 = ''m'' @ code @ ''2x3;''"
    by (simp add: Encode_matrix digit_values)
  have "length code \<le> 8 \<longrightarrow>
            (\<exists>r. BuildStaticMangledName GetBasicMangledName basicType precision qualifier 1 1 = Inr r \<and>
                 c_str (name r) = code @ ''1;'')"
    using general [of 1 1] by (simp add: scalar kStaticMangledNameMaxLength_def)
  moreover have "length code \<le> 7 \<longrightarrow>
            (\<exists>r. BuildStaticMangledName GetBasicMangledName basicType precision qualifier 3 1 = Inr r \<and>
                 c_str (name r) = ''v'' @ code @ ''3;'')"
    using general [of 3 1] by (simp add: vector kStaticMangledNameMaxLength_def)
  moreover have "length code \<le> 5 \<longrightarrow>
            (\<exists>r. BuildStaticMangledName GetBasicMangledName basicType precision qualifier 2 3 = Inr r \<and>
                 c_str (name r) = ''m'' @ code @ ''2x3;'')"
    using general [of 2 3] by (simp add: matrix kStaticMangledNameMaxLength_def)
  ultimately show ?thesis
    using general [of primarySize secondarySize] by blast
qed

theorem mangled_name_format_witness:
  "(\<exists>r. BuildStaticMangledName (\<lambda>b. ''f'' @ [NUL]) EbtFloat EbpUndefined EvqGlobal 4 4 = Inr r \<and>
        c_str (name r) = ''mf4x4;'')
   \<and> (\<exists>r. BuildStaticMangledName (\<lambda>b. ''f'' @ [NUL]) EbtFloat EbpUndefined EvqGlobal 1 1 = Inr r \<and>
        c_str (name r) = ''f1;'')
   \<and> (\<exists>r. BuildStaticMangledName (\<lambda>b. ''f'' @ [NUL]) EbtFloat EbpUndefined EvqGlobal 3 1 = Inr r \<and>
        c_str (name r) = ''vf3;'')
   \<and> (\<exists>r. BuildStaticMangledName (\<lambda>b. ''f'' @ [NUL]) EbtFloat EbpUndefined EvqGlobal 2 3 = Inr r \<and>
        c_str (name r) = ''mf2x3;'')"
  using mangled_name_format [of "\<lambda>b. ''f'' @ [NUL]" EbtFloat "''f''" "[]" 4 4 EbpUndefined EvqGlobal]
  by (simp add: NUL_def Encode_def kStaticMangledNameMaxLength_def digit_values)

text \<open>
  Claim C3. Two keys that agree on basic type and both sizes get the same mangled name,
  whatever their precisions and qualifiers: the encoder never reads these two arguments.
\<close>

theorem mangled_name_ignores_precision_and_qualifier:
  "BuildStaticMangledName GetBasicMangledName basicType precision qualifier primarySize secondarySize =
   BuildStaticMangledName GetBasicMangledName basicType precision' qualifier' primarySize secondarySize
   \<and> kMangledNameInstance GetBasicMangledName basicType precision qualifier primarySize secondarySize =
     kMangledNameInstance GetBasicMangledName basicType precision' qualifier' primarySize secondarySize"
  by (simp add: BuildStaticMangledName_def kMangledNameInstance_def)

theorem mangled_name_ignores_precision_and_qualifier_witness:
  "BuildStaticMangledName (\<lambda>b. ''f'' @ [NUL]) EbtFloat EbpUndefined EvqGlobal 3 1 =
   BuildStaticMangledName (\<lambda>b. ''f'' @ [NUL]) EbtFloat (EbpOther 2) EvqOut 3 1"
  using mangled_name_ignores_precision_and_qualifier
    [of "\<lambda>b. ''f'' @ [NUL]" EbtFloat EbpUndefined EvqGlobal 3 1 "EbpOther 2" EvqOut]
  by simp

text \<open>
  Claim C10. With primary size 1 the encoder does not look at the secondary size: every
  key (basic type, precision, qualifier, 1, N) with N from 1 to 4 gets the scalar name,
  the short code followed by \<open>1;\<close>, although two such keys with different N are
  different instances with different addresses.
\<close>

theorem scalar_name_ignores_secondarySize:
  assumes "GetBasicMangledName basicType = code @ NUL # rest" and "NUL \<notin> set code"
    and "length code \<le> 8"
    and "1 \<le> secondarySize" "secondarySize \<le> 4" "1 \<le> secondarySize'" "secondarySize' \<le> 4"
    and "secondarySize \<noteq> secondarySize'"
  shows "(\<exists>r. BuildStaticMangledName GetBasicMangledName basicType precision qualifier 1 secondarySize = Inr r
            \<and> c_str (name r) = code @ ''1;'')
       \<and> BuildStaticMangledName GetBasicMangledName basicType precision qualifier 1 secondarySize =
         BuildStaticMangledName GetBasicMangledName basicType precision qualifier 1 secondarySize'
       \<and> (\<exists>t t'. Get basicType precision qualifier 1 secondarySize = Inr t
            \<and> Get basicType precision qualifier 1 secondarySize' = Inr t' \<and> t \<noteq> t')"
proof -
  note build = BuildStaticMangledName_Encode
    [where GetBasicMangledName = GetBasicMangledName and basicType = basicType, OF assms(1,2)]
  have nul: "NUL \<notin> set (code @ ''1;'')"
    using assms(2) by (simp add: NUL_def)
  have fits: "length (code @ ''1;'') \<le> kStaticMangledNameMaxLength"
    using assms(3) by (simp add: kStaticMangledNameMaxLength_def)
  have "\<exists>r. BuildStaticMangledName GetBasicMangledName basicType precision qualifier 1 secondarySize = Inr r
            \<and> c_str (name r) = code @ ''1;''"
    using fits c_str_filled [OF nul fits] by (simp add: build Encode_scalar)
  moreover have "BuildStaticMangledName GetBasicMangledName basicType precision qualifier 1 secondarySize =
         BuildStaticMangledName GetBasicMangledName basicType precision qualifier 1 secondarySize'"
    by (simp add: build Encode_scalar)
  moreover have "\<exists>t t'. Get basicType precision qualifier 1 secondarySize = Inr t
            \<and> Get basicType precision qualifier 1 secondarySize' = Inr t' \<and> t \<noteq> t'"
    using assms(4-8) by (simp add: Get_def)
  ultimately show ?thesis by blast
qed

theorem scalar_name_ignores_secondarySize_witness:
  "(\<exists>r. BuildStaticMangledName (\<lambda>b. ''f'' @ [NUL]) EbtFloat EbpUndefined EvqGlobal 1 3 = Inr r
            \<and> c_str (name r) = ''f1;'')
       \<and> BuildStaticMangledName (\<lambda>b. ''f'' @ [NUL]) EbtFloat EbpUndefined EvqGlobal 1 3 =
         BuildStaticMangledName (\<lambda>b. ''f'' @ [NUL]) EbtFloat EbpUndefined EvqGlobal 1 1
       \<and> (\<exists>t t'. Get EbtFloat EbpUndefined EvqGlobal 1 3 = Inr t
            \<and> Get EbtFloat EbpUndefined EvqGlobal 1 1 = Inr t' \<and> t \<noteq> t')"
  using scalar_name_ignores_secondarySize
    [of "\<lambda>b. ''f'' @ [NUL]" EbtFloat "''f''" "[]" 3 1 EbpUndefined EvqGlobal]
  by (simp add: NUL_def) metis

text \<open>
  Claim C8. No name the encoder produces is longer than \<open>kStaticMangledNameMaxLength\<close>
  characters, and the array always has one more element, which holds the terminator. The
  encoder produces a name exactly when the encoding has at most that many characters; a
  longer encoding leaves the array during constant evaluation and is rejected, so no write
  outside the array is ever carried out. Short codes of at most five characters fit for
  every key.
\<close>

theorem mangled_name_within_bound:
  assumes "GetBasicMangledName basicType = code @ NUL # rest" and "NUL \<notin> set code"
  shows "(\<forall>r. BuildStaticMangledName GetBasicMangledName basicType precision qualifier
               primarySize secondarySize = Inr r \<longrightarrow>
            length (name r) = kStaticMangledNameMaxLength + 1 \<and>
            length (c_str (name r)) \<le> kStaticMangledNameMaxLength \<and>
            length (Encode code primarySize secondarySize) \<le> kStaticMangledNameMaxLength \<and>
            name r ! length (Encode code primarySize secondarySize) = NUL)
       \<and> (length (Encode code primarySize secondarySize) \<le> kStaticMangledNameMaxLength \<longrightarrow>
            (\<exists>r. BuildStaticMangledName GetBasicMangledName basicType precision qualifier
               primarySize secondarySize = Inr r))
       \<and> (kStaticMangledNameMaxLength < length (Encode code primarySize secondarySize) \<longrightarrow>
            BuildStaticMangledName GetBasicMangledName basicType precision qualifier
               primarySize secondarySize = Inl IndexOutOfBounds)
       \<and> (length code \<le> 5 \<longrightarrow>
            (\<exists>r. BuildStaticMangledName GetBasicMangledName basicType precision qualifier
               primarySize secondarySize = Inr r))"
proof -
  note build = BuildStaticMangledName_Encode
    [where GetBasicMangledName = GetBasicMangledName and basicType = basicType, OF assms(1,2)]
  let ?enc = "Encode code primarySize secondarySize"
  have inside: "length (name (fst (filled ?enc))) = kStaticMangledNameMaxLength + 1 \<and>
      length (c_str (name (fst (filled ?enc)))) \<le> kStaticMangledNameMaxLength \<and>
      name (fst (filled ?enc)) ! length ?enc = NUL"
    if "length ?enc \<le> kStaticMangledNameMaxLength"
    using that length_c_str_filled [OF that] length_name_filled [OF that]
    by (simp add: name_filled [OF that])
  have short: "length ?enc \<le> kStaticMangledNameMaxLength" if "length code \<le> 5"
    using that by (simp add: length_Encode kStaticMangledNameMaxLength_def)
  show ?thesis
    using inside short by (auto simp: build split: if_splits)
qed

theorem mangled_name_within_bound_witness:
  "(\<exists>r. BuildStaticMangledName (\<lambda>b. ''abcde'' @ [NUL]) EbtFloat EbpUndefined EvqGlobal 4 4 = Inr r \<and>
      length (name r) = 11 \<and> length (c_str (name r)) \<le> 10)
   \<and> BuildStaticMangledName (\<lambda>b. ''abcdef'' @ [NUL]) EbtFloat EbpUndefined EvqGlobal 4 4 =
       Inl IndexOutOfBounds"
  using mangled_name_within_bound
      [of "\<lambda>b. ''abcde'' @ [NUL]" EbtFloat "''abcde''" "[]" EbpUndefined EvqGlobal 4 4]
    mangled_name_within_bound
      [of "\<lambda>b. ''abcdef'' @ [NUL]" EbtFloat "''abcdef''" "[]" EbpUndefined EvqGlobal 4 4]
  by (auto simp: NUL_def length_Encode kStaticMangledNameMaxLength_def)

section \<open>The lookups on valid and invalid sizes\<close>

lemma Get_valid:
  assumes "1 \<le> primarySize" "primarySize \<le> 4" "1 \<le> secondarySize" "secondarySize \<le> 4"
  shows "Get basicType precision qualifier primarySize secondarySize =
           Inr (kInstancePtr basicType precision qualifier primarySize secondarySize)"
  using assms by (simp add: Get_def)


lemma GetBasic_void: "GetBasic EbtVoid 1 1 = Inr (kInstancePtr EbtVoid EbpUndefined EvqGlobal 1 1)"
  by (simp add: GetBasic_def Get_def)

lemma instantiate_helper_ok:
  assumes "basicType = EbtFloat \<or> basicType = EbtInt \<or> basicType = EbtUInt \<or> basicType = EbtBool"
    and "1 \<le> secondarySize" "secondarySize \<le> 4"
  shows "instantiate_GetForVecMatHelper basicType precision qualifier secondarySize = Inr ()"
  using assms
  by (auto simp: instantiate_GetForVecMatHelper_def Get_def GetBasic_def andThen_Inr)

lemma instantiate_helper_unsupported:
  assumes "\<not> (basicType = EbtFloat \<or> basicType = EbtInt \<or> basicType = EbtUInt \<or> basicType = EbtBool)"
  shows "instantiate_GetForVecMatHelper basicType precision qualifier secondarySize =
           Inl (StaticAssertFailed ''unsupported basicType'')"
  using assms by (simp add: instantiate_GetForVecMatHelper_def)

lemma instantiate_helper_bad_secondarySize:
  assumes "basicType = EbtFloat \<or> basicType = EbtInt \<or> basicType = EbtUInt \<or> basicType = EbtBool"
    and "\<not> (1 \<le> secondarySize \<and> secondarySize \<le> 4)"
  shows "instantiate_GetForVecMatHelper basicType precision qualifier secondarySize =
           Inl (StaticAssertFailed ''secondarySize out of bounds'')"
  using assms
  by (auto simp: instantiate_GetForVecMatHelper_def Get_def andThen_Inl)

lemma helper_valid:
  assumes "basicType = EbtFloat \<or> basicType = EbtInt \<or> basicType = EbtUInt \<or> basicType = EbtBool"
    and "1 \<le> primarySize" "primarySize \<le> 4"
  shows "GetForVecMatHelper fatal basicType precision qualifier secondarySize primarySize =
           Get basicType precision qualifier primarySize secondarySize"
proof (cases "1 \<le> secondarySize \<and> secondarySize \<le> 4")
  case True
  then have "instantiate_GetForVecMatHelper basicType precision qualifier secondarySize = Inr ()"
    using assms(1) by (simp add: instantiate_helper_ok)
  then show ?thesis
    using dim_cases [OF assms(2,3)]
    by (auto simp: GetForVecMatHelper_def andThen_Inr)
next
  case False
  then have "Get basicType precision qualifier primarySize secondarySize =
               Inl (StaticAssertFailed ''secondarySize out of bounds'')"
    using assms(2,3) by (auto simp: Get_def)
  then show ?thesis
    using instantiate_helper_bad_secondarySize [OF assms(1) False]
    by (simp add: GetForVecMatHelper_def andThen_Inl)
qed

lemma helper_default:
  assumes "basicType = EbtFloat \<or> basicType = EbtInt \<or> basicType = EbtUInt \<or> basicType = EbtBool"
    and "1 \<le> secondarySize" "secondarySize \<le> 4"
    and "\<not> (1 \<le> primarySize \<and> primarySize \<le> 4)"
  shows "GetForVecMatHelper fatal basicType precision qualifier secondarySize primarySize =
           (if fatal then Inl UnreachableReached
            else Inr (kInstancePtr EbtVoid EbpUndefined EvqGlobal 1 1))"
proof -
  have "primarySize \<noteq> 1" "primarySize \<noteq> 2" "primarySize \<noteq> 3" "primarySize \<noteq> 4"
    using assms(4) by auto
  then show ?thesis
    by (simp add: GetForVecMatHelper_def instantiate_helper_ok [OF assms(1-3)]
          UNREACHABLE_def GetBasic_void andThen_Inr andThen_Inl)
qed

text \<open>Under its own \<open>static_assert\<close> \<open>GetForVecMat\<close> is its \<open>switch\<close>.\<close>

lemma GetForVecMat_switch:
  assumes "basicType = EbtFloat \<or> basicType = EbtInt \<or> basicType = EbtUInt \<or> basicType = EbtBool"
  shows "GetForVecMat fatal basicType precision qualifier primarySize secondarySize =
     (if secondarySize = 1 then GetForVecMatHelper fatal basicType precision qualifier 1 primarySize
      else if secondarySize = 2 then GetForVecMatHelper fatal basicType precision qualifier 2 primarySize
      else if secondarySize = 3 then GetForVecMatHelper fatal basicType precision qualifier 3 primarySize
      else if secondarySize = 4 then GetForVecMatHelper fatal basicType precision qualifier 4 primarySize
      else andThen (UNREACHABLE fatal) (\<lambda>_. GetBasic EbtVoid 1 1))"
proof -
  have "instantiate_GetForVecMatHelper basicType precision qualifier 1 = Inr ()"
    "instantiate_GetForVecMatHelper basicType precision qualifier 2 = Inr ()"
    "instantiate_GetForVecMatHelper basicType precision qualifier 3 = Inr ()"
    "instantiate_GetForVecMatHelper basicType precision qualifier 4 = Inr ()"
    using assms by (simp_all add: instantiate_helper_ok)
  then show ?thesis
    using assms by (simp add: GetForVecMat_def GetBasic_void andThen_Inr)
qed

lemma GetForVec_switch:
  assumes "basicType = EbtFloat \<or> basicType = EbtInt \<or> basicType = EbtUInt \<or> basicType = EbtBool"
  shows "GetForVec fatal basicType precision qualifier size' =
     (case qualifier of
        EvqGlobal \<Rightarrow> GetForVecMatHelper fatal basicType precision EvqGlobal 1 size'
      | EvqOut \<Rightarrow> GetForVecMatHelper fatal basicType precision EvqOut 1 size'
      | EvqOther _ \<Rightarrow> andThen (UNREACHABLE fatal) (\<lambda>_. GetBasic EbtVoid 1 1))"
  using assms by (simp add: GetForVec_def instantiate_helper_ok GetBasic_void andThen_Inr)

lemma kInstance_fields:
  assumes "kInstance GetBasicMangledName basicType precision qualifier primarySize secondarySize = Inr t"
  shows "td_basicKind t = basicType \<and> td_precision t = precision \<and> td_qualifier t = qualifier \<and>
         td_primarySize t = primarySize \<and> td_secondarySize t = secondarySize"
  using assms by (auto simp: kInstance_def andThen_def split: sum.splits)




section \<open>Claims about the lookups\<close>




text \<open>
  Claim C4. For the basic types float, int, unsigned int and bool, every precision and
  qualifier and both sizes from 1 to 4, the dynamic lookup \<open>GetForVecMat\<close> returns the
  same reference as the static lookup \<open>Get\<close> with the same five arguments, whichever
  way \<open>UNREACHABLE\<close> is built.
\<close>

theorem GetForVecMat_agrees_with_Get:
  assumes "basicType = EbtFloat \<or> basicType = EbtInt \<or> basicType = EbtUInt \<or> basicType = EbtBool"
    and "1 \<le> primarySize" "primarySize \<le> 4" "1 \<le> secondarySize" "secondarySize \<le> 4"
  shows "GetForVecMat fatal basicType precision qualifier primarySize secondarySize =
           Get basicType precision qualifier primarySize secondarySize
       \<and> GetForVecMat fatal basicType precision qualifier primarySize secondarySize =
           Inr (kInstancePtr basicType precision qualifier primarySize secondarySize)"
proof -
  have "GetForVecMat fatal basicType precision qualifier primarySize secondarySize =
          GetForVecMatHelper fatal basicType precision qualifier secondarySize primarySize"
    using dim_cases [OF assms(4,5)] by (auto simp: GetForVecMat_switch [OF assms(1)])
  then show ?thesis
    using assms by (simp add: helper_valid Get_valid)
qed

theorem GetForVecMat_agrees_with_Get_witness:
  "GetForVecMat False EbtFloat EbpUndefined EvqGlobal 3 1 = Get EbtFloat EbpUndefined EvqGlobal 3 1
   \<and> GetForVecMat True EbtBool (EbpOther 1) EvqOut 4 2 = Inr (kInstancePtr EbtBool (EbpOther 1) EvqOut 4 2)"
  using GetForVecMat_agrees_with_Get [of EbtFloat 3 1 False EbpUndefined EvqGlobal]
    GetForVecMat_agrees_with_Get [of EbtBool 4 2 True "EbpOther 1" EvqOut]
  by (simp add: Get_def)

text \<open>
  Claim C5, as stated for every basic type, fails: for the basic type void the helper's
  \<open>static_assert\<close> rejects \<open>GetForVec\<close>, while \<open>Get\<close> with the same arguments and
  secondary size 1 returns an instance.
\<close>

theorem GetForVec_unsupported_basicType_counterexample:
  "GetForVec False EbtVoid EbpUndefined EvqOut 2 = Inl (StaticAssertFailed ''unsupported basicType'')
   \<and> GetForVec True EbtVoid EbpUndefined EvqOut 2 = Inl (StaticAssertFailed ''unsupported basicType'')
   \<and> Get EbtVoid EbpUndefined EvqOut 2 1 = Inr (kInstancePtr EbtVoid EbpUndefined EvqOut 2 1)"
  by (simp add: GetForVec_def instantiate_GetForVecMatHelper_def andThen_Inl Get_def)

text \<open>
  Claim C5, amended. For the basic types float, int, unsigned int and bool: with the
  qualifier global or out and a size from 1 to 4, \<open>GetForVec\<close> returns the same
  reference as \<open>Get\<close> with that qualifier, that size and secondary size 1; with any
  other qualifier it reaches \<open>UNREACHABLE\<close> and returns, if at all, the void instance
  and never the instance of the requested key. For every other basic type \<open>GetForVec\<close>
  is rejected at build time by the helper's \<open>static_assert\<close>, whatever the qualifier
  and the size.
\<close>

theorem GetForVec_agrees_with_Get:
  "(basicType = EbtFloat \<or> basicType = EbtInt \<or> basicType = EbtUInt \<or> basicType = EbtBool \<longrightarrow>
      ((qualifier = EvqGlobal \<or> qualifier = EvqOut) \<and> 1 \<le> size' \<and> size' \<le> 4 \<longrightarrow>
            GetForVec fatal basicType precision qualifier size' =
              Get basicType precision qualifier size' 1 \<and>
            GetForVec fatal basicType precision qualifier size' =
              Inr (kInstancePtr basicType precision qualifier size' 1))
       \<and> (qualifier \<noteq> EvqGlobal \<and> qualifier \<noteq> EvqOut \<longrightarrow>
            GetForVec fatal basicType precision qualifier size' =
              (if fatal then Inl UnreachableReached
               else Inr (kInstancePtr EbtVoid EbpUndefined EvqGlobal 1 1)) \<and>
            GetForVec fatal basicType precision qualifier size' \<noteq>
              Inr (kInstancePtr basicType precision qualifier size' 1)))
   \<and> (\<not> (basicType = EbtFloat \<or> basicType = EbtInt \<or> basicType = EbtUInt \<or> basicType = EbtBool) \<longrightarrow>
        GetForVec fatal basicType precision qualifier size' =
          Inl (StaticAssertFailed ''unsupported basicType''))"
proof (cases "basicType = EbtFloat \<or> basicType = EbtInt \<or> basicType = EbtUInt \<or> basicType = EbtBool")
  case supported: True
  show ?thesis
  proof (cases qualifier)
    case EvqGlobal
    then show ?thesis
      using supported by (auto simp: GetForVec_switch helper_valid Get_valid)
  next
    case EvqOut
    then show ?thesis
      using supported by (auto simp: GetForVec_switch helper_valid Get_valid)
  next
    case (EvqOther n)
    then show ?thesis
      using supported
      by (auto simp: GetForVec_switch UNREACHABLE_def GetBasic_void andThen_Inr andThen_Inl)
  qed
next
  case False
  then show ?thesis
    by (simp add: GetForVec_def instantiate_helper_unsupported andThen_Inl)
qed

theorem GetForVec_agrees_with_Get_witness:
  "GetForVec False EbtFloat EbpUndefined EvqOut 2 = Get EbtFloat EbpUndefined EvqOut 2 1
   \<and> GetForVec False EbtFloat EbpUndefined EvqOut 2 = Inr (kInstancePtr EbtFloat EbpUndefined EvqOut 2 1)
   \<and> GetForVec True EbtFloat EbpUndefined (EvqOther 0) 2 = Inl UnreachableReached
   \<and> GetForVec False EbtFloat EbpUndefined (EvqOther 0) 2 =
       Inr (kInstancePtr EbtVoid EbpUndefined EvqGlobal 1 1)
   \<and> GetForVec False EbtVoid EbpUndefined (EvqOther 0) 2 =
       Inl (StaticAssertFailed ''unsupported basicType'')"
  using GetForVec_agrees_with_Get [of EbtFloat EvqOut 2 False EbpUndefined]
    GetForVec_agrees_with_Get [of EbtFloat "EvqOther 0" 2 True EbpUndefined]
    GetForVec_agrees_with_Get [of EbtFloat "EvqOther 0" 2 False EbpUndefined]
    GetForVec_agrees_with_Get [of EbtVoid "EvqOther 0" 2 False EbpUndefined]
  by (simp add: Get_def)

text \<open>
  Claim C6. A static lookup with a primary or secondary size outside 1 to 4 is rejected
  by one of the two \<open>static_assert\<close>s of \<open>Get\<close>: no reference to an instance is
  returned, neither by \<open>Get\<close> nor by the overloads that forward to it.
\<close>

theorem Get_rejects_sizes_out_of_bounds:
  assumes "\<not> (1 \<le> primarySize \<and> primarySize \<le> 4) \<or> \<not> (1 \<le> secondarySize \<and> secondarySize \<le> 4)"
  shows "(Get basicType precision qualifier primarySize secondarySize =
            Inl (StaticAssertFailed ''primarySize out of bounds'') \<or>
          Get basicType precision qualifier primarySize secondarySize =
            Inl (StaticAssertFailed ''secondarySize out of bounds''))
       \<and> (\<forall>r. Get basicType precision qualifier primarySize secondarySize \<noteq> Inr r)
       \<and> (\<forall>r. GetBasic basicType primarySize secondarySize \<noteq> Inr r)
       \<and> (\<forall>r. GetQualified basicType qualifier primarySize secondarySize \<noteq> Inr r)"
  using assms by (auto simp: Get_def GetBasic_def GetQualified_def)

theorem Get_rejects_sizes_out_of_bounds_witness:
  "Get EbtFloat EbpUndefined EvqGlobal 5 1 = Inl (StaticAssertFailed ''primarySize out of bounds'')
   \<and> Get EbtFloat EbpUndefined EvqGlobal 2 0 = Inl (StaticAssertFailed ''secondarySize out of bounds'')"
  using Get_rejects_sizes_out_of_bounds [of 5 1 EbtFloat EbpUndefined EvqGlobal]
    Get_rejects_sizes_out_of_bounds [of 2 0 EbtFloat EbpUndefined EvqGlobal]
  by (simp add: Get_def)

text \<open>
  Claim C7. When \<open>GetForVecMat\<close> gets a size outside 1 to 4, or its helper gets such a
  primary size, the \<open>default\<close> branch is taken: \<open>UNREACHABLE\<close> is reached, and in a
  build where that does not abort the result is \<open>GetBasic<EbtVoid>()\<close>, the instance of
  void with undefined precision, global qualifier and sizes 1 and 1. The instance of the
  requested key is never returned.
\<close>

theorem bridge_size_out_of_range:
  assumes "\<not> (1 \<le> primarySize \<and> primarySize \<le> 4) \<or> \<not> (1 \<le> secondarySize \<and> secondarySize \<le> 4)"
  shows "GetForVecMat fatal basicType precision qualifier primarySize secondarySize \<noteq>
           Inr (kInstancePtr basicType precision qualifier primarySize secondarySize)
       \<and> (basicType = EbtFloat \<or> basicType = EbtInt \<or> basicType = EbtUInt \<or> basicType = EbtBool \<longrightarrow>
            GetForVecMat fatal basicType precision qualifier primarySize secondarySize =
              (if fatal then Inl UnreachableReached else GetBasic EbtVoid 1 1))
       \<and> ((basicType = EbtFloat \<or> basicType = EbtInt \<or> basicType = EbtUInt \<or> basicType = EbtBool) \<and>
          \<not> (1 \<le> primarySize \<and> primarySize \<le> 4) \<and> 1 \<le> secondarySize' \<and> secondarySize' \<le> 4 \<longrightarrow>
            GetForVecMatHelper fatal basicType precision qualifier secondarySize' primarySize =
              (if fatal then Inl UnreachableReached else GetBasic EbtVoid 1 1) \<and>
            GetForVecMatHelper fatal basicType precision qualifier secondarySize' primarySize \<noteq>
              Inr (kInstancePtr basicType precision qualifier primarySize secondarySize'))
       \<and> GetBasic EbtVoid 1 1 = Inr (kInstancePtr EbtVoid EbpUndefined EvqGlobal 1 1)"
proof -
  let ?supported = "basicType = EbtFloat \<or> basicType = EbtInt \<or> basicType = EbtUInt \<or> basicType = EbtBool"
  let ?fallback = "if fatal then Inl UnreachableReached else GetBasic EbtVoid 1 1"
  have vecmat: "GetForVecMat fatal basicType precision qualifier primarySize secondarySize = ?fallback"
    if s: ?supported
  proof (cases "1 \<le> secondarySize \<and> secondarySize \<le> 4")
    case True
    then have p: "\<not> (1 \<le> primarySize \<and> primarySize \<le> 4)" using assms by blast
    have "GetForVecMat fatal basicType precision qualifier primarySize secondarySize =
            GetForVecMatHelper fatal basicType precision qualifier secondarySize primarySize"
      using True dim_cases [of secondarySize] by (auto simp: GetForVecMat_switch [OF s])
    then show ?thesis
      using True by (simp add: helper_default [OF s _ _ p] GetBasic_void)
  next
    case False
    then have "secondarySize \<noteq> 1" "secondarySize \<noteq> 2" "secondarySize \<noteq> 3" "secondarySize \<noteq> 4"
      by auto
    then show ?thesis
      by (auto simp: GetForVecMat_switch [OF s] UNREACHABLE_def andThen_Inr andThen_Inl)
  qed
  have differs: "?fallback \<noteq> Inr (kInstancePtr basicType precision qualifier primarySize secondarySize)"
    using assms by (auto simp: GetBasic_void)
  have first: "GetForVecMat fatal basicType precision qualifier primarySize secondarySize \<noteq>
           Inr (kInstancePtr basicType precision qualifier primarySize secondarySize)"
  proof (cases ?supported)
    case True
    then show ?thesis using vecmat differs by simp
  next
    case False
    then show ?thesis by (simp add: GetForVecMat_def)
  qed
  have helper: "GetForVecMatHelper fatal basicType precision qualifier secondarySize' primarySize = ?fallback \<and>
            GetForVecMatHelper fatal basicType precision qualifier secondarySize' primarySize \<noteq>
              Inr (kInstancePtr basicType precision qualifier primarySize secondarySize')"
    if ?supported "\<not> (1 \<le> primarySize \<and> primarySize \<le> 4)"
      "1 \<le> secondarySize'" "secondarySize' \<le> 4"
    using that by (auto simp: helper_default GetBasic_void)
  show ?thesis
    using first vecmat helper GetBasic_void by blast
qed

theorem bridge_size_out_of_range_witness:
  "GetForVecMat True EbtFloat EbpUndefined EvqGlobal 5 1 = Inl UnreachableReached
   \<and> GetForVecMat False EbtFloat EbpUndefined EvqGlobal 5 1 =
       Inr (kInstancePtr EbtVoid EbpUndefined EvqGlobal 1 1)
   \<and> GetForVecMat False EbtFloat EbpUndefined EvqGlobal 2 0 =
       Inr (kInstancePtr EbtVoid EbpUndefined EvqGlobal 1 1)
   \<and> GetForVecMatHelper False EbtFloat EbpUndefined EvqGlobal 2 7 =
       Inr (kInstancePtr EbtVoid EbpUndefined EvqGlobal 1 1)"
  using bridge_size_out_of_range [of 5 1 True EbtFloat EbpUndefined EvqGlobal 2]
    bridge_size_out_of_range [of 5 1 False EbtFloat EbpUndefined EvqGlobal 2]
    bridge_size_out_of_range [of 2 0 False EbtFloat EbpUndefined EvqGlobal 2]
    bridge_size_out_of_range [of 7 1 False EbtFloat EbpUndefined EvqGlobal 2]
  by (simp add: GetBasic_def Get_def)

text \<open>
  Claim C9. \<open>GetBasic\<close> is \<open>Get\<close> with undefined precision and global qualifier, and
  \<open>GetQualified\<close> is \<open>Get\<close> with undefined precision, for all arguments, including
  those that \<open>Get\<close> rejects; for valid sizes they return the instances of these keys.
\<close>

theorem overloads_abbreviate_Get:
  "GetBasic basicType primarySize secondarySize =
     Get basicType EbpUndefined EvqGlobal primarySize secondarySize
   \<and> GetQualified basicType qualifier primarySize secondarySize =
     Get basicType EbpUndefined qualifier primarySize secondarySize
   \<and> (1 \<le> primarySize \<and> primarySize \<le> 4 \<and> 1 \<le> secondarySize \<and> secondarySize \<le> 4 \<longrightarrow>
        GetBasic basicType primarySize secondarySize =
          Inr (kInstancePtr basicType EbpUndefined EvqGlobal primarySize secondarySize) \<and>
        GetQualified basicType qualifier primarySize secondarySize =
          Inr (kInstancePtr basicType EbpUndefined qualifier primarySize secondarySize))"
  by (simp add: GetBasic_def GetQualified_def Get_valid)

theorem overloads_abbreviate_Get_witness:
  "GetBasic EbtVoid 1 1 = Get EbtVoid EbpUndefined EvqGlobal 1 1
   \<and> GetQualified EbtFloat EvqOut 4 4 = Inr (kInstancePtr EbtFloat EbpUndefined EvqOut 4 4)"
  using overloads_abbreviate_Get [of EbtVoid 1 1 EvqOut]
    overloads_abbreviate_Get [of EbtFloat 4 4 EvqOut]
  by (simp add: Get_def)

end
